theory Spec2Isabelle
  imports Main "HOL-Library.Log_Nat" "HOL-Library.Multiset"
begin

section \<open>JavaScript numbers\<close>

text \<open>
  Every number of the scripts is a JavaScript \<^verbatim>\<open>number\<close>, an IEEE 754 binary64 value.
  The finite values are rationals, so a number is modelled as a \<^typ>\<open>rat\<close>, comparisons
  (\<^verbatim>\<open>>\<close>, \<^verbatim>\<open><=\<close>) are the exact ones, and every arithmetic operator computes the exact
  result and rounds it to the nearest value with a 53-bit significand, ties to even
  (\<open>double\<close>). A numeric literal of the source denotes the rounded value of its
  decimal, so \<^verbatim>\<open>0.1\<close> is \<open>double (1 / 10)\<close>.

  The exponent range is not bounded in the model: it agrees with binary64 on results of
  magnitude between \<open>2\<^sup>-\<^sup>1\<^sup>0\<^sup>2\<^sup>2\<close> and \<open>2\<^sup>1\<^sup>0\<^sup>2\<^sup>4\<close>. \<^verbatim>\<open>Infinity\<close> and the
  sign of zero are not represented, and \<^verbatim>\<open>NaN\<close> is represented only where a caller
  supplies the number: in the \<^verbatim>\<open>total\<close> of an order of the first pipeline.
\<close>

definition pow2 :: "int \<Rightarrow> rat" where
  "pow2 k = (if 0 \<le> k then 2 ^ nat k else 1 / 2 ^ nat (- k))"

text \<open>\<open>exponent x\<close> is the integer \<open>e\<close> with \<open>2\<^sup>e \<le> \<bar>x\<bar> < 2\<^sup>e\<^sup>+\<^sup>1\<close>, for \<open>x \<noteq> 0\<close>.\<close>

definition exponent :: "rat \<Rightarrow> int" where
  "exponent x = (case quotient_of \<bar>x\<bar> of (p, q) \<Rightarrow>
     (let k = bitlen p - bitlen q in if pow2 k \<le> \<bar>x\<bar> then k else k - 1))"

definition roundTiesToEven :: "rat \<Rightarrow> int" where
  "roundTiesToEven m = (let f = \<lfloor>m\<rfloor>; d = m - of_int f in
     if d < 1 / 2 then f else if 1 / 2 < d then f + 1 else if even f then f else f + 1)"

definition double :: "rat \<Rightarrow> rat" where
  "double x = (if x = 0 then 0 else
     (let u = pow2 (exponent x - 52) in sgn x * of_int (roundTiesToEven (\<bar>x\<bar> / u)) * u))"

text \<open>The operators \<^verbatim>\<open>+\<close>, \<^verbatim>\<open>-\<close> and \<^verbatim>\<open>*\<close> on numbers.\<close>

definition fadd :: "rat \<Rightarrow> rat \<Rightarrow> rat" where
  "fadd x y = double (x + y)"

definition fsub :: "rat \<Rightarrow> rat \<Rightarrow> rat" where
  "fsub x y = double (x - y)"

definition fmul :: "rat \<Rightarrow> rat \<Rightarrow> rat" where
  "fmul x y = double (x * y)"

text \<open>
  A value a caller passes where a number is expected is \<open>Some\<close> of the number, or
  \<open>None\<close> when it is no number: \<^verbatim>\<open>NaN\<close>, or \<^verbatim>\<open>undefined\<close> (an argument that was not
  passed), which a comparison converts to \<^verbatim>\<open>NaN\<close>. The comparisons \<^verbatim>\<open>v <= c\<close> and
  \<^verbatim>\<open>v > c\<close> with a number \<open>c\<close> are both false when \<open>v\<close> is no number.
\<close>

definition js_le :: "rat option \<Rightarrow> rat \<Rightarrow> bool" where
  "js_le v c = (case v of None \<Rightarrow> False | Some x \<Rightarrow> x \<le> c)"

definition js_gt :: "rat option \<Rightarrow> rat \<Rightarrow> bool" where
  "js_gt v c = (case v of None \<Rightarrow> False | Some x \<Rightarrow> c < x)"

section \<open>The order pipeline (index01.js and its extension with the strict validator)\<close>

text \<open>
  \<^verbatim>\<open>throw new Error(msg)\<close> is the value \<open>Inl (Error msg)\<close>; a method that can throw
  returns \<open>error + 'a\<close>.
\<close>

datatype error = Error string

text \<open>
  An identifier or a customer name is a string or \<^verbatim>\<open>undefined\<close> (\<open>None\<close>, an argument
  that was not passed). \<open>falsy v\<close> is the test \<^verbatim>\<open>!v\<close>: true of \<^verbatim>\<open>undefined\<close> and of
  the empty string. In a template literal \<^verbatim>\<open>undefined\<close> is rendered by its name.
\<close>

definition falsy :: "string option \<Rightarrow> bool" where
  "falsy v = (case v of None \<Rightarrow> True | Some s \<Rightarrow> s = [])"

definition render :: "string option \<Rightarrow> string" where
  "render v = (case v of None \<Rightarrow> ''undefined'' | Some s \<Rightarrow> s)"

text \<open>
  class \<^verbatim>\<open>Order\<close> with its fields \<^verbatim>\<open>id\<close>, \<^verbatim>\<open>customerName\<close>, \<^verbatim>\<open>items\<close>, \<^verbatim>\<open>total\<close>
  and \<^verbatim>\<open>status\<close>. The field \<^verbatim>\<open>items\<close> is \<open>Some\<close> of a list when it holds an array and
  \<open>None\<close> when it holds anything else. The field \<^verbatim>\<open>total\<close> is \<open>Some\<close> of a number, or
  \<open>None\<close> when it holds \<^verbatim>\<open>NaN\<close> or \<^verbatim>\<open>undefined\<close>.
\<close>

record order =
  o_id :: "string option"
  o_customerName :: "string option"
  o_items :: "string list option"
  o_total :: "rat option"
  o_status :: string

definition Order ::
  "string option \<Rightarrow> string option \<Rightarrow> string list option \<Rightarrow> rat option \<Rightarrow> order" where
  "Order i customer its t =
     \<lparr>o_id = i, o_customerName = customer, o_items = its, o_total = t, o_status = ''pending''\<rparr>"

text \<open>\<^verbatim>\<open>OrderValidator.validate\<close>: three guards in sequence, each of which throws.\<close>

definition validate_OrderValidator :: "order \<Rightarrow> error + bool" where
  "validate_OrderValidator ord =
     (if falsy (o_id ord) \<or> falsy (o_customerName ord)
      then Inl (Error ''Order must have id and customer name'')
      else if (case o_items ord of None \<Rightarrow> True | Some its \<Rightarrow> length its = 0)
      then Inl (Error ''Order must have at least one item'')
      else if js_le (o_total ord) 0
      then Inl (Error ''Order total must be greater than zero'')
      else Inr True)"

text \<open>
  \<^verbatim>\<open>StrictOrderValidator.validate\<close>: \<^verbatim>\<open>super.validate(order)\<close> first, whose exception
  propagates, then the ceiling.
\<close>

definition validate_StrictOrderValidator :: "order \<Rightarrow> error + bool" where
  "validate_StrictOrderValidator ord =
     (case validate_OrderValidator ord of
        Inl e \<Rightarrow> Inl e
      | Inr _ \<Rightarrow>
          if js_gt (o_total ord) 10000
          then Inl (Error ''Order total exceeds maximum allowed value'')
          else Inr True)"

text \<open>The validator a service is constructed with; \<open>validate\<close> is the dynamic dispatch.\<close>

datatype validator = OrderValidator | StrictOrderValidator

fun validate :: "validator \<Rightarrow> order \<Rightarrow> error + bool" where
  "validate OrderValidator ord = validate_OrderValidator ord"
| "validate StrictOrderValidator ord = validate_StrictOrderValidator ord"

text \<open>
  \<^verbatim>\<open>OrderRepository\<close> and \<^verbatim>\<open>DatabaseOrderRepository\<close>. The state of a repository is its
  array \<^verbatim>\<open>orders\<close>; \<open>console\<close> collects the lines the repository has written with
  \<^verbatim>\<open>console.log\<close>.
\<close>

datatype repository_class = OrderRepository | DatabaseOrderRepository

record repository =
  r_class :: repository_class
  orders :: "order list"
  console :: "string list"

definition new_repository :: "repository_class \<Rightarrow> repository" where
  "new_repository c = \<lparr>r_class = c, orders = [], console = []\<rparr>"

definition save_OrderRepository :: "repository \<Rightarrow> order \<Rightarrow> repository \<times> order" where
  "save_OrderRepository r ord = (r\<lparr>orders := orders r @ [ord]\<rparr>, ord)"

definition save_DatabaseOrderRepository :: "repository \<Rightarrow> order \<Rightarrow> repository \<times> order" where
  "save_DatabaseOrderRepository r ord =
     save_OrderRepository
       (r\<lparr>console := console r @
          [''[Database] Saving order '' @ render (o_id ord) @ '' to database'']\<rparr>) ord"

definition save :: "repository \<Rightarrow> order \<Rightarrow> repository \<times> order" where
  "save r ord = (case r_class r of
     OrderRepository \<Rightarrow> save_OrderRepository r ord
   | DatabaseOrderRepository \<Rightarrow> save_DatabaseOrderRepository r ord)"

text \<open>\<^verbatim>\<open>Array.prototype.find\<close> gives the first match, or \<^verbatim>\<open>undefined\<close> (\<open>None\<close>).\<close>

definition findById :: "repository \<Rightarrow> string option \<Rightarrow> order option" where
  "findById r i = find (\<lambda>ord. o_id ord = i) (orders r)"

definition findAll :: "repository \<Rightarrow> order list" where
  "findAll r = orders r"

text \<open>\<^verbatim>\<open>OrderService\<close>, constructed with a validator and a repository.\<close>

record service =
  s_validator :: validator
  s_repository :: repository

definition createOrder ::
  "service \<Rightarrow> string option \<Rightarrow> string option \<Rightarrow> string list option \<Rightarrow> rat option
     \<Rightarrow> (error + order) \<times> service" where
  "createOrder s i customer its t =
     (let ord = Order i customer its t in
      case validate (s_validator s) ord of
        Inl e \<Rightarrow> (Inl e, s)
      | Inr _ \<Rightarrow>
          (case save (s_repository s) ord of
             (r, saved) \<Rightarrow> (Inr saved, s\<lparr>s_repository := r\<rparr>)))"

definition getOrder :: "service \<Rightarrow> string option \<Rightarrow> order option" where
  "getOrder s i = findById (s_repository s) i"

definition getAllOrders :: "service \<Rightarrow> order list" where
  "getAllOrders s = findAll (s_repository s)"

section \<open>The payment pipeline\<close>

text \<open>
  class \<^verbatim>\<open>Payment\<close>, whose field \<^verbatim>\<open>method\<close> is \<open>pay_method\<close> here. The status
  is the string the source stores; \<^verbatim>\<open>processedAt\<close> is
  \<^verbatim>\<open>null\<close> (\<open>None\<close>) or the ISO string of the time of completion. The clock
  \<^verbatim>\<open>new Date().toISOString()\<close> is the argument \<open>now\<close> of \<open>complete_Payment\<close> (the method \<^verbatim>\<open>complete\<close>).
\<close>

record payment =
  amount :: rat
  pay_method :: string
  status :: string
  processedAt :: "string option"

definition Payment :: "rat \<Rightarrow> string \<Rightarrow> payment" where
  "Payment a m = \<lparr>amount = a, pay_method = m, status = ''pending'', processedAt = None\<rparr>"

text \<open>
  \<^verbatim>\<open>process\<close> and \<^verbatim>\<open>complete\<close> are defined on every extension of the record: the
  overriding methods of the two subclasses call \<^verbatim>\<open>super\<close> and return \<^verbatim>\<open>this\<close>.
\<close>

definition process :: "'a payment_scheme \<Rightarrow> 'a payment_scheme" where
  "process p = p\<lparr>status := ''processing''\<rparr>"

definition complete_Payment :: "string \<Rightarrow> 'a payment_scheme \<Rightarrow> 'a payment_scheme" where
  "complete_Payment now p = p\<lparr>status := ''completed'', processedAt := Some now\<rparr>"

record payment_info =
  i_amount :: rat
  i_method :: string
  i_status :: string
  i_processedAt :: "string option"

definition getPaymentInfo :: "'a payment_scheme \<Rightarrow> payment_info" where
  "getPaymentInfo p =
     \<lparr>i_amount = amount p, i_method = pay_method p, i_status = status p,
      i_processedAt = processedAt p\<rparr>"

text \<open>class \<^verbatim>\<open>CreditCardPayment extends Payment\<close>.\<close>

record credit_card_payment = payment +
  cardNumber :: string
  cardHolder :: string

definition CreditCardPayment :: "rat \<Rightarrow> string \<Rightarrow> string \<Rightarrow> credit_card_payment" where
  "CreditCardPayment a number holder =
     \<lparr>amount = a, pay_method = ''credit_card'', status = ''pending'', processedAt = None,
      cardNumber = number, cardHolder = holder\<rparr>"

text \<open>
  \<^verbatim>\<open>String.prototype.slice(begin)\<close>: a negative \<^verbatim>\<open>begin\<close> counts from the end, and the
  start is clamped to the string.
\<close>

definition slice :: "string \<Rightarrow> int \<Rightarrow> string" where
  "slice s b =
     (let len = int (length s);
          from = (if b < 0 then max (len + b) 0 else min b len)
      in drop (nat from) s)"

definition maskCardNumber :: "credit_card_payment \<Rightarrow> string" where
  "maskCardNumber p = (let last4 = slice (cardNumber p) (- 4) in ''****-****-****-'' @ last4)"

record credit_card_info = payment_info +
  i_cardHolder :: string
  i_cardNumber :: string

definition getPaymentInfo_CreditCardPayment :: "credit_card_payment \<Rightarrow> credit_card_info" where
  "getPaymentInfo_CreditCardPayment p =
     (let info = getPaymentInfo p in
      \<lparr>i_amount = i_amount info, i_method = i_method info, i_status = i_status info,
       i_processedAt = i_processedAt info,
       i_cardHolder = cardHolder p, i_cardNumber = maskCardNumber p\<rparr>)"

text \<open>class \<^verbatim>\<open>PixPayment extends Payment\<close>.\<close>

record pix_payment = payment +
  pixKey :: string

definition PixPayment :: "rat \<Rightarrow> string \<Rightarrow> pix_payment" where
  "PixPayment a k =
     \<lparr>amount = a, pay_method = ''pix'', status = ''pending'', processedAt = None, pixKey = k\<rparr>"

record pix_info = payment_info +
  i_pixKey :: string

definition getPaymentInfo_PixPayment :: "pix_payment \<Rightarrow> pix_info" where
  "getPaymentInfo_PixPayment p =
     (let info = getPaymentInfo p in
      \<lparr>i_amount = i_amount info, i_method = i_method info, i_status = i_status info,
       i_processedAt = i_processedAt info, i_pixKey = pixKey p\<rparr>)"

text \<open>
  \<^verbatim>\<open>PaymentProcessor\<close>: its state is the array \<^verbatim>\<open>payments\<close>, of payments of any
  subclass.
\<close>

definition processPayment ::
  "string \<Rightarrow> 'a payment_scheme list \<Rightarrow> 'a payment_scheme
     \<Rightarrow> 'a payment_scheme list \<times> 'a payment_scheme" where
  "processPayment now payments p =
     (let p1 = process p; p2 = complete_Payment now p1 in (payments @ [p2], p2))"

definition getTotalProcessed :: "'a payment_scheme list \<Rightarrow> rat" where
  "getTotalProcessed payments = foldl (\<lambda>total p. fadd total (amount p)) 0 payments"

section \<open>The order-with-items pipeline (index03.js)\<close>

record product =
  p_id :: string
  p_name :: string
  p_price :: rat

record order_item =
  product :: product
  quantity :: rat

definition getSubtotal :: "order_item \<Rightarrow> rat" where
  "getSubtotal item = fmul (p_price (product item)) (quantity item)"

text \<open>
  class \<^verbatim>\<open>Order\<close> of index03.js: \<^verbatim>\<open>id\<close>, \<^verbatim>\<open>customerName\<close>, \<^verbatim>\<open>items\<close> (always an
  array, of \<^verbatim>\<open>OrderItem\<close>) and \<^verbatim>\<open>status\<close>. Its names carry the suffix \<open>3\<close> where the
  first pipeline has the same name.
\<close>

record order3 =
  a_id :: "string option"
  a_customerName :: "string option"
  a_items :: "order_item list"
  a_status :: string

definition Order3 :: "string option \<Rightarrow> string option \<Rightarrow> order3" where
  "Order3 i customer = \<lparr>a_id = i, a_customerName = customer, a_items = [], a_status = ''pending''\<rparr>"

definition addItem :: "order3 \<Rightarrow> product \<Rightarrow> rat \<Rightarrow> order3" where
  "addItem ord pr qty =
     (let item = \<lparr>product = pr, quantity = qty\<rparr> in ord\<lparr>a_items := a_items ord @ [item]\<rparr>)"

definition getTotal :: "order3 \<Rightarrow> rat" where
  "getTotal ord = foldl (\<lambda>total item. fadd total (getSubtotal item)) 0 (a_items ord)"

record item_info =
  ii_product :: product
  ii_quantity :: rat
  ii_subtotal :: rat

record order_info =
  oi_id :: "string option"
  oi_customer :: "string option"
  oi_items :: "item_info list"
  oi_total :: rat
  oi_status :: string

definition getInfo_OrderItem :: "order_item \<Rightarrow> item_info" where
  "getInfo_OrderItem item =
     \<lparr>ii_product = product item, ii_quantity = quantity item, ii_subtotal = getSubtotal item\<rparr>"

definition getInfo :: "order3 \<Rightarrow> order_info" where
  "getInfo ord =
     \<lparr>oi_id = a_id ord, oi_customer = a_customerName ord,
      oi_items = map getInfo_OrderItem (a_items ord),
      oi_total = getTotal ord, oi_status = a_status ord\<rparr>"

definition validate3 :: "order3 \<Rightarrow> error + bool" where
  "validate3 ord =
     (if falsy (a_id ord) \<or> falsy (a_customerName ord)
      then Inl (Error ''Order must have id and customer name'')
      else if length (a_items ord) = 0
      then Inl (Error ''Order must have at least one item'')
      else Inr True)"

definition calculateDiscount :: "order3 \<Rightarrow> rat" where
  "calculateDiscount ord =
     (let total = getTotal ord in
      if 500 < total then fmul total (double (1 / 10))
      else if 200 < total then fmul total (double (5 / 100))
      else 0)"

record finalized =
  f_order :: order_info
  f_discount :: rat
  f_total :: rat
  f_finalTotal :: rat

text \<open>
  \<^verbatim>\<open>OrderService.finalizeOrder\<close>: the result, or the validator's exception, and the order
  as the call leaves it.
\<close>

definition finalizeOrder :: "order3 \<Rightarrow> (error + finalized) \<times> order3" where
  "finalizeOrder ord =
     (case validate3 ord of
        Inl e \<Rightarrow> (Inl e, ord)
      | Inr _ \<Rightarrow>
          (let discount = calculateDiscount ord;
               total = getTotal ord;
               finalTotal = fsub total discount;
               ord' = ord\<lparr>a_status := ''completed''\<rparr>
           in (Inr \<lparr>f_order = getInfo ord', f_discount = discount, f_total = total,
                    f_finalTotal = finalTotal\<rparr>, ord')))"

section \<open>Rounding is exact on integers up to \<open>2\<^sup>5\<^sup>3\<close>\<close>

lemma roundTiesToEven_of_int: "roundTiesToEven (of_int z) = z"
  by (simp add: roundTiesToEven_def)

lemma bitlen_one: "bitlen 1 = 1"
  by (simp add: bitlen_alt_def)

lemma exponent_of_int:
  assumes "0 < n"
  shows "exponent (of_int n) = bitlen n - 1"
proof -
  have b: "1 \<le> bitlen n"
    using assms by (simp add: bitlen_alt_def)
  have "(2::int) ^ nat (bitlen n - 1) \<le> n"
    using bitlen_bounds [OF assms] by simp
  then have "(of_int ((2::int) ^ nat (bitlen n - 1)) :: rat) \<le> of_int n"
    by (simp only: of_int_le_iff)
  then have le: "pow2 (bitlen n - 1) \<le> of_int n"
    using b by (simp add: pow2_def)
  have q: "quotient_of \<bar>of_int n :: rat\<bar> = (n, 1)"
    using assms by simp
  show ?thesis
    using le assms by (simp add: exponent_def q bitlen_one)
qed

lemma double_of_pos_int:
  assumes "0 < n" "n \<le> 2 ^ 53"
  shows "double (of_int n) = of_int n"
proof -
  define e where "e = bitlen n - 1"
  have e0: "0 \<le> e"
    using assms(1) by (simp add: e_def bitlen_alt_def)
  have lo: "(2::int) ^ nat e \<le> n"
    using bitlen_bounds [OF assms(1)] by (simp add: e_def)
  then have "(2::int) ^ nat e \<le> 2 ^ 53"
    using assms(2) by linarith
  then have e53: "nat e \<le> 53"
    by (rule power_le_imp_le_exp [rotated]) simp
  have ex: "exponent (of_int n) = e"
    using exponent_of_int [OF assms(1)] by (simp add: e_def)
  have nz: "(of_int n :: rat) \<noteq> 0" "sgn (of_int n :: rat) = 1" "\<bar>of_int n :: rat\<bar> = of_int n"
    using assms(1) by simp_all
  show ?thesis
  proof (cases "e \<le> 52")
    case True
    then have u: "pow2 (e - 52) = 1 / 2 ^ nat (52 - e)"
      by (auto simp add: pow2_def)
    have "(of_int n :: rat) / pow2 (e - 52) = of_int (n * 2 ^ nat (52 - e))"
      by (simp add: u)
    then have "roundTiesToEven ((of_int n :: rat) / pow2 (e - 52)) = n * 2 ^ nat (52 - e)"
      by (simp only: roundTiesToEven_of_int)
    then show ?thesis
      using nz by (simp add: double_def ex Let_def u)
  next
    case False
    then have e: "e = 53"
      using e53 e0 by linarith
    then have "(2::int) ^ 53 \<le> n"
      using lo by simp
    then have n: "n = 2 ^ 53"
      using assms(2) by linarith
    have u: "pow2 (e - 52) = 2"
      by (simp add: e pow2_def)
    have "(of_int n :: rat) / 2 = of_int (2 ^ 52)"
      by (simp add: n)
    then have "roundTiesToEven ((of_int n :: rat) / 2) = 2 ^ 52"
      by (simp only: roundTiesToEven_of_int)
    then show ?thesis
      using nz by (simp add: double_def ex Let_def u) (simp add: n)
  qed
qed

lemma exponent_minus: "exponent (- x) = exponent x"
  by (simp add: exponent_def)

lemma double_minus: "double (- x) = - double x"
  by (simp add: double_def exponent_minus Let_def)

lemma double_of_int:
  assumes "\<bar>n\<bar> \<le> 2 ^ 53"
  shows "double (of_int n) = of_int n"
proof -
  consider "n = 0" | "0 < n" | "n < 0" by linarith
  then show ?thesis
  proof cases
    case 1
    then show ?thesis by (simp add: double_def)
  next
    case 2
    then show ?thesis using assms double_of_pos_int [of n] by simp
  next
    case 3
    then have "double (of_int (- n)) = of_int (- n)"
      using assms double_of_pos_int [of "- n"] by simp
    then show ?thesis
      using double_minus [of "of_int n"] by simp
  qed
qed

section \<open>The validators of the order pipeline\<close>

lemma falsy_iff: "falsy v \<longleftrightarrow> v = None \<or> v = Some []"
  by (cases v) (simp_all add: falsy_def)

lemma no_items_iff:
  "(case its of None \<Rightarrow> True | Some xs \<Rightarrow> length xs = 0) \<longleftrightarrow> its = None \<or> its = Some []"
  by (cases its) simp_all

lemma js_le_iff: "js_le v c \<longleftrightarrow> (\<exists>x. v = Some x \<and> x \<le> c)"
  by (cases v) (simp_all add: js_le_def)

lemma js_gt_iff: "js_gt v c \<longleftrightarrow> (\<exists>x. v = Some x \<and> c < x)"
  by (cases v) (simp_all add: js_gt_def)

text \<open>
  Claim C6. The base \<^verbatim>\<open>OrderValidator.validate\<close> throws exactly when the identifier is
  empty or absent, the customer name is empty or absent, the order holds no item (an empty
  array, or an \<^verbatim>\<open>items\<close> value that is no array) or the total is at most zero (a total
  that is no number is not at most zero). The error it throws is the one of the first
  violated rule, in the order identity fields, item presence, total positivity; when no
  rule is violated it returns \<^verbatim>\<open>true\<close>.
  It reads the order and assigns nothing: its model is a function of the order alone.
\<close>

theorem validate_OrderValidator_rules:
  "((\<exists>e. validate_OrderValidator ord = Inl e) \<longleftrightarrow>
      (o_id ord = None \<or> o_id ord = Some []) \<or>
      (o_customerName ord = None \<or> o_customerName ord = Some []) \<or>
      (o_items ord = None \<or> o_items ord = Some []) \<or>
      (\<exists>t. o_total ord = Some t \<and> t \<le> 0)) \<and>
   (validate_OrderValidator ord = Inl (Error ''Order must have id and customer name'') \<longleftrightarrow>
      (o_id ord = None \<or> o_id ord = Some []) \<or>
      (o_customerName ord = None \<or> o_customerName ord = Some [])) \<and>
   (validate_OrderValidator ord = Inl (Error ''Order must have at least one item'') \<longleftrightarrow>
      \<not> ((o_id ord = None \<or> o_id ord = Some []) \<or>
         (o_customerName ord = None \<or> o_customerName ord = Some [])) \<and>
      (o_items ord = None \<or> o_items ord = Some [])) \<and>
   (validate_OrderValidator ord = Inl (Error ''Order total must be greater than zero'') \<longleftrightarrow>
      \<not> ((o_id ord = None \<or> o_id ord = Some []) \<or>
         (o_customerName ord = None \<or> o_customerName ord = Some [])) \<and>
      \<not> (o_items ord = None \<or> o_items ord = Some []) \<and>
      (\<exists>t. o_total ord = Some t \<and> t \<le> 0)) \<and>
   ((\<forall>e. validate_OrderValidator ord \<noteq> Inl e) \<longleftrightarrow> validate_OrderValidator ord = Inr True)"
  unfolding validate_OrderValidator_def falsy_iff no_items_iff js_le_iff
  by auto

theorem validate_OrderValidator_rules_witness:
  "validate_OrderValidator (Order (Some ''ORD-001'') (Some ''Ana'') (Some []) (Some 0)) =
     Inl (Error ''Order must have at least one item'') \<and>
   validate_OrderValidator (Order None (Some ''Ana'') (Some []) (Some 0)) =
     Inl (Error ''Order must have id and customer name'') \<and>
   validate_OrderValidator (Order (Some ''ORD-001'') (Some ''Ana'') (Some [''Produto A'']) (Some 0)) =
     Inl (Error ''Order total must be greater than zero'') \<and>
   validate_OrderValidator (Order (Some ''ORD-001'') (Some ''Ana'') (Some [''Produto A'']) (Some 150)) =
     Inr True"
  using validate_OrderValidator_rules [of "Order (Some ''ORD-001'') (Some ''Ana'') (Some []) (Some 0)"]
    validate_OrderValidator_rules [of "Order None (Some ''Ana'') (Some []) (Some 0)"]
    validate_OrderValidator_rules [of "Order (Some ''ORD-001'') (Some ''Ana'') (Some [''Produto A'']) (Some 0)"]
    validate_OrderValidator_rules [of "Order (Some ''ORD-001'') (Some ''Ana'') (Some [''Produto A'']) (Some 150)"]
  by (auto simp add: Order_def)

text \<open>
  Claim C7. On an order that the base validator accepts and whose total is above 10000,
  \<^verbatim>\<open>StrictOrderValidator.validate\<close> throws while the base validator returns \<^verbatim>\<open>true\<close>.
  The strict validator runs every base check first (a base error is its error) and adds
  only the ceiling: at a total that is not above 10000 it accepts what the base validator
  accepts.
\<close>

theorem validate_StrictOrderValidator_ceiling:
  "(validate_OrderValidator ord = Inr True \<and> (\<exists>t. o_total ord = Some t \<and> 10000 < t) \<longrightarrow>
      validate_StrictOrderValidator ord = Inl (Error ''Order total exceeds maximum allowed value'')) \<and>
   (validate_OrderValidator ord = Inr True \<and> \<not> (\<exists>t. o_total ord = Some t \<and> 10000 < t) \<longrightarrow>
      validate_StrictOrderValidator ord = Inr True) \<and>
   (\<forall>e. validate_OrderValidator ord = Inl e \<longrightarrow> validate_StrictOrderValidator ord = Inl e)"
  by (auto simp add: validate_StrictOrderValidator_def js_gt_iff)

theorem validate_StrictOrderValidator_ceiling_witness:
  "validate_OrderValidator (Order (Some ''ORD-004'') (Some ''Ana Lima'') (Some [''Produto E'']) (Some 15000))
     = Inr True \<and>
   validate_StrictOrderValidator (Order (Some ''ORD-004'') (Some ''Ana Lima'') (Some [''Produto E'']) (Some 15000))
     = Inl (Error ''Order total exceeds maximum allowed value'') \<and>
   validate_StrictOrderValidator (Order (Some ''ORD-003'') (Some ''Pedro Costa'') (Some [''Produto D'']) (Some 200))
     = Inr True \<and>
   validate_StrictOrderValidator (Order (Some ''ORD-005'') (Some ''Pedro Costa'') (Some []) (Some 20000))
     = Inl (Error ''Order must have at least one item'')"
  using validate_StrictOrderValidator_ceiling
      [of "Order (Some ''ORD-004'') (Some ''Ana Lima'') (Some [''Produto E'']) (Some 15000)"]
    validate_StrictOrderValidator_ceiling
      [of "Order (Some ''ORD-003'') (Some ''Pedro Costa'') (Some [''Produto D'']) (Some 200)"]
    validate_StrictOrderValidator_ceiling
      [of "Order (Some ''ORD-005'') (Some ''Pedro Costa'') (Some []) (Some 20000)"]
  by (simp add: Order_def validate_OrderValidator_def falsy_def js_le_def)

section \<open>The order service\<close>

text \<open>
  Claim C10. When the configured validator throws on the order built from the arguments,
  \<^verbatim>\<open>createOrder\<close> propagates that error and leaves the service as it was: nothing is
  saved, nothing is logged, and \<^verbatim>\<open>findAll\<close> still returns the orders stored before the
  call.
\<close>

theorem createOrder_rejected:
  assumes "validate (s_validator s) (Order i customer its t) = Inl e"
  shows "createOrder s i customer its t = (Inl e, s) \<and>
         findAll (s_repository (snd (createOrder s i customer its t))) = findAll (s_repository s) \<and>
         getAllOrders (snd (createOrder s i customer its t)) = getAllOrders s"
  using assms by (simp add: createOrder_def Let_def getAllOrders_def)

theorem createOrder_rejected_witness:
  "validate StrictOrderValidator (Order (Some ''ORD-004'') (Some ''Ana Lima'') (Some [''Produto E'']) (Some 15000))
     = Inl (Error ''Order total exceeds maximum allowed value'') \<and>
   createOrder \<lparr>s_validator = StrictOrderValidator,
       s_repository = \<lparr>r_class = DatabaseOrderRepository,
         orders = [Order (Some ''ORD-003'') (Some ''Pedro Costa'') (Some [''Produto D'']) (Some 200)],
         console = [''[Database] Saving order ORD-003 to database'']\<rparr>\<rparr>
     (Some ''ORD-004'') (Some ''Ana Lima'') (Some [''Produto E'']) (Some 15000) =
   (Inl (Error ''Order total exceeds maximum allowed value''),
    \<lparr>s_validator = StrictOrderValidator,
       s_repository = \<lparr>r_class = DatabaseOrderRepository,
         orders = [Order (Some ''ORD-003'') (Some ''Pedro Costa'') (Some [''Produto D'']) (Some 200)],
         console = [''[Database] Saving order ORD-003 to database'']\<rparr>\<rparr>)"
proof -
  have v: "validate StrictOrderValidator
      (Order (Some ''ORD-004'') (Some ''Ana Lima'') (Some [''Produto E'']) (Some 15000))
     = Inl (Error ''Order total exceeds maximum allowed value'')"
    by (simp add: Order_def validate_StrictOrderValidator_def validate_OrderValidator_def falsy_def
        js_le_def js_gt_def)
  show ?thesis
    using v createOrder_rejected [of "\<lparr>s_validator = StrictOrderValidator,
       s_repository = \<lparr>r_class = DatabaseOrderRepository,
         orders = [Order (Some ''ORD-003'') (Some ''Pedro Costa'') (Some [''Produto D'']) (Some 200)],
         console = [''[Database] Saving order ORD-003 to database'']\<rparr>\<rparr>"
       "Some ''ORD-004''" "Some ''Ana Lima''" "Some [''Produto E'']" "Some 15000"
       "Error ''Order total exceeds maximum allowed value''"]
    by simp
qed

lemma find_snoc:
  "find P (xs @ [x]) = (case find P xs of None \<Rightarrow> (if P x then Some x else None) | Some y \<Rightarrow> Some y)"
  by (induction xs) simp_all

lemma find_None_iff_set: "find P xs = None \<longleftrightarrow> (\<forall>x\<in>set xs. \<not> P x)"
  by (induction xs) simp_all

lemma orders_save: "orders (fst (save r ord)) = orders r @ [ord]"
  by (cases "r_class r")
    (simp_all add: save_def save_OrderRepository_def save_DatabaseOrderRepository_def)

lemma snd_save: "snd (save r ord) = ord"
  by (cases "r_class r")
    (simp_all add: save_def save_OrderRepository_def save_DatabaseOrderRepository_def)

lemma createOrder_accepted:
  assumes "validate (s_validator s) (Order i customer its t) = Inr b"
  shows "createOrder s i customer its t =
           (Inr (Order i customer its t),
            s\<lparr>s_repository := fst (save (s_repository s) (Order i customer its t))\<rparr>)"
  using assms
  by (simp add: createOrder_def Let_def case_prod_unfold snd_save)

lemma validate_valid:
  assumes "ident \<noteq> []" "customer \<noteq> []" "its \<noteq> []" "0 < t"
    and "v = OrderValidator \<or> t \<le> 10000"
  shows "validate v (Order (Some ident) (Some customer) (Some its) (Some t)) = Inr True"
  using assms
  by (cases v)
    (auto simp add: Order_def validate_OrderValidator_def validate_StrictOrderValidator_def falsy_def
      js_le_def js_gt_def)

text \<open>
  Claim C5, as the code has it. For a non-empty identifier, a non-empty customer name, at
  least one item and a positive total (at most 10000 when the strict validator is
  configured), \<^verbatim>\<open>createOrder\<close> succeeds, returns the order with the given field values
  in status \<^verbatim>\<open>pending\<close> and appends it to the repository. A following \<^verbatim>\<open>getOrder(id)\<close>
  returns the first stored order with that identifier: the order already stored under it
  when there is one, and the new order, with identical field values, when no stored order
  had the identifier before the call.
\<close>

theorem createOrder_getOrder:
  assumes "ident \<noteq> []" "customer \<noteq> []" "its \<noteq> []" "0 < t"
    and "s_validator s = OrderValidator \<or> t \<le> 10000"
  shows "fst (createOrder s (Some ident) (Some customer) (Some its) (Some t)) =
           Inr \<lparr>o_id = Some ident, o_customerName = Some customer, o_items = Some its,
                o_total = Some t, o_status = ''pending''\<rparr> \<and>
         findAll (s_repository (snd (createOrder s (Some ident) (Some customer) (Some its) (Some t)))) =
           findAll (s_repository s) @
             [\<lparr>o_id = Some ident, o_customerName = Some customer, o_items = Some its,
               o_total = Some t, o_status = ''pending''\<rparr>] \<and>
         getOrder (snd (createOrder s (Some ident) (Some customer) (Some its) (Some t))) (Some ident) =
           (case getOrder s (Some ident) of
              None \<Rightarrow> Some \<lparr>o_id = Some ident, o_customerName = Some customer,
                  o_items = Some its, o_total = Some t, o_status = ''pending''\<rparr>
            | Some old \<Rightarrow> Some old) \<and>
         ((\<forall>old \<in> set (findAll (s_repository s)). o_id old \<noteq> Some ident) \<longrightarrow>
          getOrder (snd (createOrder s (Some ident) (Some customer) (Some its) (Some t))) (Some ident) =
            Some \<lparr>o_id = Some ident, o_customerName = Some customer, o_items = Some its,
                  o_total = Some t, o_status = ''pending''\<rparr>)"
proof -
  let ?new = "\<lparr>o_id = Some ident, o_customerName = Some customer, o_items = Some its,
      o_total = Some t, o_status = ''pending''\<rparr>"
  have new: "Order (Some ident) (Some customer) (Some its) (Some t) = ?new"
    by (simp add: Order_def)
  have "validate (s_validator s) (Order (Some ident) (Some customer) (Some its) (Some t)) = Inr True"
    using assms by (rule validate_valid)
  then have c: "createOrder s (Some ident) (Some customer) (Some its) (Some t) =
      (Inr ?new, s\<lparr>s_repository := fst (save (s_repository s) ?new)\<rparr>)"
    using createOrder_accepted [of s "Some ident" "Some customer" "Some its" "Some t" True]
    by (simp only: new)
  have all: "findAll (s_repository (snd (createOrder s (Some ident) (Some customer) (Some its) (Some t))))
      = findAll (s_repository s) @ [?new]"
    by (simp add: c findAll_def orders_save)
  have get: "getOrder (snd (createOrder s (Some ident) (Some customer) (Some its) (Some t))) (Some ident) =
      (case getOrder s (Some ident) of None \<Rightarrow> Some ?new | Some old \<Rightarrow> Some old)"
    by (simp add: c getOrder_def findById_def orders_save find_snoc)
  have fresh: "getOrder s (Some ident) = None"
    if "\<forall>old \<in> set (findAll (s_repository s)). o_id old \<noteq> Some ident"
    using that by (simp add: getOrder_def findById_def findAll_def find_None_iff_set)
  have first: "fst (createOrder s (Some ident) (Some customer) (Some its) (Some t)) = Inr ?new"
    by (simp add: c)
  have fresh_get: "(\<forall>old \<in> set (findAll (s_repository s)). o_id old \<noteq> Some ident) \<longrightarrow>
      getOrder (snd (createOrder s (Some ident) (Some customer) (Some its) (Some t))) (Some ident) =
        Some ?new"
    using fresh by (simp add: get)
  show ?thesis
    using first all get fresh_get by (intro conjI)
qed

theorem createOrder_getOrder_witness:
  "fst (createOrder \<lparr>s_validator = OrderValidator, s_repository = new_repository OrderRepository\<rparr>
      (Some ''ORD-001'') (Some ''Joao Silva'') (Some [''Produto A'', ''Produto B'']) (Some 150)) =
     Inr \<lparr>o_id = Some ''ORD-001'', o_customerName = Some ''Joao Silva'',
          o_items = Some [''Produto A'', ''Produto B''], o_total = Some 150, o_status = ''pending''\<rparr> \<and>
   getOrder (snd (createOrder
      \<lparr>s_validator = OrderValidator, s_repository = new_repository OrderRepository\<rparr>
      (Some ''ORD-001'') (Some ''Joao Silva'') (Some [''Produto A'', ''Produto B'']) (Some 150)))
     (Some ''ORD-001'') =
     Some \<lparr>o_id = Some ''ORD-001'', o_customerName = Some ''Joao Silva'',
          o_items = Some [''Produto A'', ''Produto B''], o_total = Some 150, o_status = ''pending''\<rparr>"
proof -
  let ?s = "\<lparr>s_validator = OrderValidator, s_repository = new_repository OrderRepository\<rparr>"
  have p: "''ORD-001'' \<noteq> []" "''Joao Silva'' \<noteq> []" "[''Produto A'', ''Produto B''] \<noteq> []"
    "(0::rat) < 150" "s_validator ?s = OrderValidator \<or> (150::rat) \<le> 10000"
    by simp_all
  have fresh: "\<forall>old \<in> set (findAll (s_repository ?s)). o_id old \<noteq> Some ''ORD-001''"
    by (simp add: new_repository_def findAll_def)
  from createOrder_getOrder [OF p] fresh show ?thesis
    by blast
qed

text \<open>
  The round trip fails on an identifier that is already stored: the repository does not
  keep identifiers unique, and \<^verbatim>\<open>find\<close> returns the older order.
\<close>

theorem getOrder_duplicate_id:
  "fst (createOrder
      (snd (createOrder \<lparr>s_validator = OrderValidator, s_repository = new_repository OrderRepository\<rparr>
         (Some ''ORD-001'') (Some ''Joao Silva'') (Some [''Produto A'']) (Some 150)))
      (Some ''ORD-001'') (Some ''Maria Santos'') (Some [''Produto C'']) (Some 75)) =
     Inr \<lparr>o_id = Some ''ORD-001'', o_customerName = Some ''Maria Santos'',
          o_items = Some [''Produto C''], o_total = Some 75, o_status = ''pending''\<rparr> \<and>
   getOrder (snd (createOrder
      (snd (createOrder \<lparr>s_validator = OrderValidator, s_repository = new_repository OrderRepository\<rparr>
         (Some ''ORD-001'') (Some ''Joao Silva'') (Some [''Produto A'']) (Some 150)))
      (Some ''ORD-001'') (Some ''Maria Santos'') (Some [''Produto C'']) (Some 75))) (Some ''ORD-001'') =
     Some \<lparr>o_id = Some ''ORD-001'', o_customerName = Some ''Joao Silva'',
          o_items = Some [''Produto A''], o_total = Some 150, o_status = ''pending''\<rparr> \<and>
   getOrder (snd (createOrder
      (snd (createOrder \<lparr>s_validator = OrderValidator, s_repository = new_repository OrderRepository\<rparr>
         (Some ''ORD-001'') (Some ''Joao Silva'') (Some [''Produto A'']) (Some 150)))
      (Some ''ORD-001'') (Some ''Maria Santos'') (Some [''Produto C'']) (Some 75))) (Some ''ORD-001'') \<noteq>
     Some \<lparr>o_id = Some ''ORD-001'', o_customerName = Some ''Maria Santos'',
          o_items = Some [''Produto C''], o_total = Some 75, o_status = ''pending''\<rparr>"
  by (simp add: createOrder_def Let_def Order_def validate_OrderValidator_def falsy_def js_le_def
      new_repository_def save_def save_OrderRepository_def getOrder_def findById_def)

section \<open>What the validators accept\<close>

lemma validate3_Inr:
  "validate3 ord = Inr b \<Longrightarrow>
     \<not> falsy (a_id ord) \<and> \<not> falsy (a_customerName ord) \<and> a_items ord \<noteq> []"
  by (auto simp add: validate3_def split: if_splits)

lemma validate_OrderValidator_Inr:
  "validate_OrderValidator ord = Inr b \<Longrightarrow>
     \<not> falsy (o_id ord) \<and> \<not> falsy (o_customerName ord) \<and>
     o_items ord \<noteq> None \<and> o_items ord \<noteq> Some [] \<and> \<not> js_le (o_total ord) 0"
  by (auto simp add: validate_OrderValidator_def no_items_iff split: if_splits)

lemma not_falsy: "\<not> falsy v \<longleftrightarrow> (\<exists>s. v = Some s \<and> s \<noteq> [])"
  by (cases v) (simp_all add: falsy_def)

text \<open>
  Claim C3, as the code has it. The base and the strict validator of the first pipeline
  accept an order only if it has a non-empty identifier, a non-empty customer name, at
  least one item and, when its total is a number, a positive total. The validator of
  index03.js accepts an order only if it has a non-empty identifier, a non-empty customer
  name and at least one item; it does not look at the total.
\<close>

theorem validators_accept_only:
  "(validate v ord = Inr b \<longrightarrow>
      (\<exists>ident. o_id ord = Some ident \<and> ident \<noteq> []) \<and>
      (\<exists>name. o_customerName ord = Some name \<and> name \<noteq> []) \<and>
      (\<exists>its. o_items ord = Some its \<and> its \<noteq> []) \<and>
      (\<forall>t. o_total ord = Some t \<longrightarrow> 0 < t)) \<and>
   (validate3 ord3 = Inr b \<longrightarrow>
      (\<exists>ident. a_id ord3 = Some ident \<and> ident \<noteq> []) \<and>
      (\<exists>name. a_customerName ord3 = Some name \<and> name \<noteq> []) \<and>
      a_items ord3 \<noteq> [])"
proof -
  have base: "validate_OrderValidator ord = Inr b' \<Longrightarrow>
      (\<exists>ident. o_id ord = Some ident \<and> ident \<noteq> []) \<and>
      (\<exists>name. o_customerName ord = Some name \<and> name \<noteq> []) \<and>
      (\<exists>its. o_items ord = Some its \<and> its \<noteq> []) \<and>
      (\<forall>t. o_total ord = Some t \<longrightarrow> 0 < t)" for b'
    using validate_OrderValidator_Inr [of ord b'] by (auto simp add: not_falsy js_le_iff)
  have strict: "validate_StrictOrderValidator ord = Inr b \<Longrightarrow> \<exists>b'. validate_OrderValidator ord = Inr b'"
    by (auto simp add: validate_StrictOrderValidator_def split: sum.splits)
  have one: "validate v ord = Inr b \<Longrightarrow> \<exists>b'. validate_OrderValidator ord = Inr b'"
    using strict by (cases v) auto
  show ?thesis
    using one base validate3_Inr [of ord3 b] by (auto simp add: not_falsy)
qed

theorem validators_accept_only_witness:
  "validate StrictOrderValidator
     (Order (Some ''ORD-003'') (Some ''Pedro Costa'') (Some [''Produto D'']) (Some 200)) = Inr True \<and>
   o_total (Order (Some ''ORD-003'') (Some ''Pedro Costa'') (Some [''Produto D'']) (Some 200)) =
     Some 200 \<and>
   (0::rat) < 200 \<and>
   validate3 (addItem (Order3 (Some ''ORD-002'') (Some ''Maria Santos''))
      \<lparr>p_id = ''PROD-001'', p_name = ''Notebook'', p_price = 2500\<rparr> 2) = Inr True \<and>
   a_items (addItem (Order3 (Some ''ORD-002'') (Some ''Maria Santos''))
      \<lparr>p_id = ''PROD-001'', p_name = ''Notebook'', p_price = 2500\<rparr> 2) \<noteq> []"
proof -
  let ?ord = "Order (Some ''ORD-003'') (Some ''Pedro Costa'') (Some [''Produto D'']) (Some 200)"
  let ?ord3 = "addItem (Order3 (Some ''ORD-002'') (Some ''Maria Santos''))
      \<lparr>p_id = ''PROD-001'', p_name = ''Notebook'', p_price = 2500\<rparr> 2"
  have v: "validate StrictOrderValidator ?ord = Inr True"
    by (simp add: Order_def validate_StrictOrderValidator_def validate_OrderValidator_def falsy_def
        js_le_def js_gt_def)
  have t: "o_total ?ord = Some 200"
    by (simp add: Order_def)
  have v3: "validate3 ?ord3 = Inr True"
    by (simp add: validate3_def Order3_def addItem_def falsy_def)
  from validators_accept_only [of StrictOrderValidator ?ord True ?ord3] v v3
  have pos: "\<forall>x. o_total ?ord = Some x \<longrightarrow> 0 < x" and items: "a_items ?ord3 \<noteq> []"
    by blast+
  from pos t have "(0::rat) < 200"
    by blast
  then show ?thesis
    using v t v3 items by (intro conjI)
qed

text \<open>
  The validator of index03.js accepts an order whose only item has price 0: its total is 0,
  not positive. The validators of the first pipeline accept an order whose total is no
  number (\<^verbatim>\<open>NaN\<close>, or an omitted argument): both \<^verbatim>\<open>total <= 0\<close> and \<^verbatim>\<open>total > 10000\<close>
  are false of it, and \<^verbatim>\<open>createOrder\<close> saves the order.
\<close>

theorem validators_accept_without_positive_total:
  "validate3 (addItem (Order3 (Some ''ORD-001'') (Some ''Joao Silva''))
      \<lparr>p_id = ''PROD-004'', p_name = ''Brinde'', p_price = 0\<rparr> 1) = Inr True \<and>
   getTotal (addItem (Order3 (Some ''ORD-001'') (Some ''Joao Silva''))
      \<lparr>p_id = ''PROD-004'', p_name = ''Brinde'', p_price = 0\<rparr> 1) = 0 \<and>
   \<not> 0 < getTotal (addItem (Order3 (Some ''ORD-001'') (Some ''Joao Silva''))
      \<lparr>p_id = ''PROD-004'', p_name = ''Brinde'', p_price = 0\<rparr> 1) \<and>
   validate OrderValidator
     (Order (Some ''ORD-001'') (Some ''Joao Silva'') (Some [''Produto A'']) None) = Inr True \<and>
   validate StrictOrderValidator
     (Order (Some ''ORD-001'') (Some ''Joao Silva'') (Some [''Produto A'']) None) = Inr True \<and>
   o_total (Order (Some ''ORD-001'') (Some ''Joao Silva'') (Some [''Produto A'']) None) = None \<and>
   findAll (s_repository (snd (createOrder
      \<lparr>s_validator = StrictOrderValidator, s_repository = new_repository OrderRepository\<rparr>
      (Some ''ORD-001'') (Some ''Joao Silva'') (Some [''Produto A'']) None))) =
     [\<lparr>o_id = Some ''ORD-001'', o_customerName = Some ''Joao Silva'',
       o_items = Some [''Produto A''], o_total = None, o_status = ''pending''\<rparr>]"
  by (simp add: validate3_def Order3_def addItem_def falsy_def getTotal_def getSubtotal_def
      fadd_def fmul_def double_def Order_def validate_OrderValidator_def
      validate_StrictOrderValidator_def js_le_def js_gt_def createOrder_def Let_def
      new_repository_def save_def save_OrderRepository_def findAll_def)

section \<open>The payment lifecycle\<close>

text \<open>
  Claim C4, as the code has it. \<^verbatim>\<open>process()\<close> sets the status to \<^verbatim>\<open>processing\<close> and
  leaves \<^verbatim>\<open>processedAt\<close> alone; \<^verbatim>\<open>complete()\<close> sets the status to \<^verbatim>\<open>completed\<close> and
  \<^verbatim>\<open>processedAt\<close> to the current time; both do so whatever the status was. On the path
  that \<^verbatim>\<open>PaymentProcessor.processPayment\<close> drives, \<^verbatim>\<open>process()\<close> then \<^verbatim>\<open>complete()\<close> on
  a new payment, the status goes \<^verbatim>\<open>pending\<close>, \<^verbatim>\<open>processing\<close>, \<^verbatim>\<open>completed\<close> with no step
  skipped, and \<^verbatim>\<open>processedAt\<close> is \<^verbatim>\<open>null\<close> until \<^verbatim>\<open>complete()\<close> sets it, once.
\<close>

theorem payment_lifecycle:
  "status (Payment a m) = ''pending'' \<and> processedAt (Payment a m) = None \<and>
   status (process p) = ''processing'' \<and> processedAt (process p) = processedAt p \<and>
   status (complete_Payment now p) = ''completed'' \<and> processedAt (complete_Payment now p) = Some now \<and>
   processPayment now payments p = (payments @ [complete_Payment now (process p)], complete_Payment now (process p)) \<and>
   map status [Payment a m, process (Payment a m), complete_Payment now (process (Payment a m))] =
     [''pending'', ''processing'', ''completed''] \<and>
   map processedAt [Payment a m, process (Payment a m), complete_Payment now (process (Payment a m))] =
     [None, None, Some now]"
  by (simp add: Payment_def process_def complete_Payment_def processPayment_def Let_def)

text \<open>
  The two methods have no guard. On a new payment \<^verbatim>\<open>complete()\<close> alone goes from
  \<^verbatim>\<open>pending\<close> to \<^verbatim>\<open>completed\<close>; \<^verbatim>\<open>process()\<close> on a completed payment takes it back to
  \<^verbatim>\<open>processing\<close>; a second \<^verbatim>\<open>complete()\<close> overwrites \<^verbatim>\<open>processedAt\<close>.
\<close>

theorem payment_transitions_unguarded:
  "status (Payment 100 ''pix'') = ''pending'' \<and>
   status (complete_Payment ''2024-01-01T10:00:00.000Z'' (Payment 100 ''pix'')) = ''completed'' \<and>
   status (complete_Payment ''2024-01-01T10:00:00.000Z'' (process (Payment 100 ''pix''))) = ''completed'' \<and>
   status (process (complete_Payment ''2024-01-01T10:00:00.000Z'' (process (Payment 100 ''pix'')))) =
     ''processing'' \<and>
   processedAt (complete_Payment ''2024-01-01T10:00:00.000Z'' (process (Payment 100 ''pix''))) =
     Some ''2024-01-01T10:00:00.000Z'' \<and>
   processedAt (complete_Payment ''2024-01-02T10:00:00.000Z''
       (complete_Payment ''2024-01-01T10:00:00.000Z'' (process (Payment 100 ''pix'')))) =
     Some ''2024-01-02T10:00:00.000Z''"
  by (simp add: Payment_def process_def complete_Payment_def)

section \<open>Card masking\<close>

lemma slice_last4: "slice s (- 4) = drop (length s - 4) s"
  by (simp add: slice_def Let_def max_def nat_diff_distrib')

text \<open>
  Claim C8. \<^verbatim>\<open>maskCardNumber\<close> on the card number \<^verbatim>\<open>1234567890123456\<close> is
  \<^verbatim>\<open>****-****-****-3456\<close>. For every card number, the \<^verbatim>\<open>cardNumber\<close> of the rendered
  payment info is the fixed mask followed by the last four characters of the number (all of
  them when it has fewer than four), and nothing else of the info depends on the number:
  two payments that differ only in card numbers with the same last four characters render
  the same info.
\<close>

theorem maskCardNumber_last4:
  "maskCardNumber (CreditCardPayment a ''1234567890123456'' holder) = ''****-****-****-3456'' \<and>
   i_cardNumber (getPaymentInfo_CreditCardPayment p) =
     ''****-****-****-'' @ drop (length (cardNumber p) - 4) (cardNumber p) \<and>
   length (i_cardNumber (getPaymentInfo_CreditCardPayment p)) = 15 + min 4 (length (cardNumber p)) \<and>
   (drop (length n1 - 4) n1 = drop (length n2 - 4) n2 \<longrightarrow>
      getPaymentInfo_CreditCardPayment (p\<lparr>cardNumber := n1\<rparr>) =
      getPaymentInfo_CreditCardPayment (p\<lparr>cardNumber := n2\<rparr>))"
proof -
  have ex: "maskCardNumber (CreditCardPayment a ''1234567890123456'' holder) = ''****-****-****-3456''"
    by (simp add: maskCardNumber_def CreditCardPayment_def slice_last4)
  have m: "maskCardNumber q = ''****-****-****-'' @ drop (length (cardNumber q) - 4) (cardNumber q)" for q
    by (simp add: maskCardNumber_def slice_last4)
  have i: "i_cardNumber (getPaymentInfo_CreditCardPayment q) = maskCardNumber q" for q
    by (simp add: getPaymentInfo_CreditCardPayment_def Let_def)
  have len: "length (i_cardNumber (getPaymentInfo_CreditCardPayment p)) = 15 + min 4 (length (cardNumber p))"
    by (simp add: i m)
  have eq: "getPaymentInfo_CreditCardPayment (p\<lparr>cardNumber := n1\<rparr>) =
      getPaymentInfo_CreditCardPayment (p\<lparr>cardNumber := n2\<rparr>)"
    if "drop (length n1 - 4) n1 = drop (length n2 - 4) n2"
    using that by (simp add: getPaymentInfo_CreditCardPayment_def getPaymentInfo_def Let_def m)
  show ?thesis
    using ex i m len eq by simp
qed

theorem maskCardNumber_last4_witness:
  "drop (length ''1234567890123456'' - 4) ''1234567890123456'' =
     drop (length ''9999000011113456'' - 4) ''9999000011113456'' \<and>
   getPaymentInfo_CreditCardPayment
     ((CreditCardPayment 250 ''1234567890123456'' ''Joao Silva'')\<lparr>cardNumber := ''1234567890123456''\<rparr>) =
   getPaymentInfo_CreditCardPayment
     ((CreditCardPayment 250 ''1234567890123456'' ''Joao Silva'')\<lparr>cardNumber := ''9999000011113456''\<rparr>) \<and>
   i_cardNumber (getPaymentInfo_CreditCardPayment (CreditCardPayment 250 ''1234567890123456'' ''Joao Silva''))
     = ''****-****-****-3456''"
proof -
  have h: "drop (length ''1234567890123456'' - 4) ''1234567890123456'' =
     drop (length ''9999000011113456'' - 4) ''9999000011113456''"
    by simp
  have c: "cardNumber (CreditCardPayment 250 ''1234567890123456'' ''Joao Silva'') = ''1234567890123456''"
    by (simp add: CreditCardPayment_def)
  from maskCardNumber_last4 [of 250 "''Joao Silva''"
      "CreditCardPayment 250 ''1234567890123456'' ''Joao Silva''"
      "''1234567890123456''" "''9999000011113456''"] h
  show ?thesis
    by (simp add: c)
qed

section \<open>Discount tiers\<close>

lemma fmul_500_tier: "fmul 500 (double (5 / 100)) = 25"
  by code_simp

lemma double_50001: "500 < double (50001 / 100)"
  by code_simp

lemma double_20001: "200 < double (20001 / 100) \<and> \<not> 500 < double (20001 / 100)"
  by code_simp

lemma getTotal_one_item:
  "getTotal (addItem (Order3 i customer) \<lparr>p_id = pid, p_name = pname, p_price = price\<rparr> 1) =
     double (double price)"
  by (simp add: getTotal_def addItem_def Order3_def getSubtotal_def fadd_def fmul_def)

lemma double_500: "double (double 500) = 500"
  by code_simp

lemma double_200: "double (double 200) = 200"
  by code_simp

lemma double_double_50001: "double (double (50001 / 100)) = double (50001 / 100)"
  by code_simp

lemma double_double_20001: "double (double (20001 / 100)) = double (20001 / 100)"
  by code_simp

lemma fmul_50001: "fmul (double (50001 / 100)) (double (1 / 10)) = 1759253788813689 / 35184372088832"
  by code_simp

lemma fmul_20001: "fmul (double (20001 / 100)) (double (5 / 100)) = 5629781009189831 / 562949953421312"
  by code_simp

text \<open>
  Claim C1, as the code has it. The tier tests are strictly greater-than. At a total of
  500.00 the 10% tier is excluded and the order is in the 5% tier: the discount is 25. At
  500.01 the discount is 10% of the total (the product \<^verbatim>\<open>total * 0.1\<close>); at 200.00 it is 0;
  at 200.01 it is 5% of the total (the product \<^verbatim>\<open>total * 0.05\<close>). In general the discount
  is \<^verbatim>\<open>total * 0.1\<close> above 500, \<^verbatim>\<open>total * 0.05\<close> above 200 and up to 500, and 0 up to 200.
\<close>

theorem calculateDiscount_tiers:
  "(getTotal ord = 500 \<longrightarrow> calculateDiscount ord = 25) \<and>
   (getTotal ord = double (50001 / 100) \<longrightarrow>
      calculateDiscount ord = fmul (getTotal ord) (double (1 / 10))) \<and>
   (getTotal ord = 200 \<longrightarrow> calculateDiscount ord = 0) \<and>
   (getTotal ord = double (20001 / 100) \<longrightarrow>
      calculateDiscount ord = fmul (getTotal ord) (double (5 / 100))) \<and>
   (500 < getTotal ord \<longrightarrow> calculateDiscount ord = fmul (getTotal ord) (double (1 / 10))) \<and>
   (200 < getTotal ord \<and> getTotal ord \<le> 500 \<longrightarrow>
      calculateDiscount ord = fmul (getTotal ord) (double (5 / 100))) \<and>
   (getTotal ord \<le> 200 \<longrightarrow> calculateDiscount ord = 0)"
  using fmul_500_tier double_50001 double_20001
  by (auto simp add: calculateDiscount_def Let_def)

theorem calculateDiscount_tiers_witness:
  "calculateDiscount (addItem (Order3 (Some ''ORD-001'') (Some ''Ana''))
      \<lparr>p_id = ''PROD-001'', p_name = ''Item'', p_price = 500\<rparr> 1) = 25 \<and>
   calculateDiscount (addItem (Order3 (Some ''ORD-001'') (Some ''Ana''))
      \<lparr>p_id = ''PROD-001'', p_name = ''Item'', p_price = 50001 / 100\<rparr> 1) =
     1759253788813689 / 35184372088832 \<and>
   calculateDiscount (addItem (Order3 (Some ''ORD-001'') (Some ''Ana''))
      \<lparr>p_id = ''PROD-001'', p_name = ''Item'', p_price = 200\<rparr> 1) = 0 \<and>
   calculateDiscount (addItem (Order3 (Some ''ORD-001'') (Some ''Ana''))
      \<lparr>p_id = ''PROD-001'', p_name = ''Item'', p_price = 20001 / 100\<rparr> 1) =
     5629781009189831 / 562949953421312"
  using
    calculateDiscount_tiers [of "addItem (Order3 (Some ''ORD-001'') (Some ''Ana''))
      \<lparr>p_id = ''PROD-001'', p_name = ''Item'', p_price = 500\<rparr> 1"]
    calculateDiscount_tiers [of "addItem (Order3 (Some ''ORD-001'') (Some ''Ana''))
      \<lparr>p_id = ''PROD-001'', p_name = ''Item'', p_price = 50001 / 100\<rparr> 1"]
    calculateDiscount_tiers [of "addItem (Order3 (Some ''ORD-001'') (Some ''Ana''))
      \<lparr>p_id = ''PROD-001'', p_name = ''Item'', p_price = 200\<rparr> 1"]
    calculateDiscount_tiers [of "addItem (Order3 (Some ''ORD-001'') (Some ''Ana''))
      \<lparr>p_id = ''PROD-001'', p_name = ''Item'', p_price = 20001 / 100\<rparr> 1"]
  by (simp only: getTotal_one_item double_500 double_200 double_double_50001 double_double_20001
      fmul_50001 fmul_20001 simp_thms)

text \<open>
  An order of total 500.00 gets the discount 25, not 0: at 500 the second test,
  \<^verbatim>\<open>total > 200\<close>, holds.
\<close>

theorem calculateDiscount_at_500:
  "getTotal (addItem (Order3 (Some ''ORD-001'') (Some ''Ana''))
      \<lparr>p_id = ''PROD-001'', p_name = ''Item'', p_price = 500\<rparr> 1) = 500 \<and>
   calculateDiscount (addItem (Order3 (Some ''ORD-001'') (Some ''Ana''))
      \<lparr>p_id = ''PROD-001'', p_name = ''Item'', p_price = 500\<rparr> 1) = 25 \<and>
   calculateDiscount (addItem (Order3 (Some ''ORD-001'') (Some ''Ana''))
      \<lparr>p_id = ''PROD-001'', p_name = ''Item'', p_price = 500\<rparr> 1) \<noteq> 0"
  using fmul_500_tier
  by (simp add: calculateDiscount_def Let_def getTotal_one_item double_500)

section \<open>Finalizing an order\<close>

lemma getTotal_prices:
  "getTotal ord =
     foldl (\<lambda>total (price, qty). fadd total (fmul price qty)) 0
       (map (\<lambda>item. (p_price (product item), quantity item)) (a_items ord))"
  by (simp add: getTotal_def getSubtotal_def foldl_map)

lemma total_example: "fadd (fadd (fadd 0 (fmul 2500 1)) (fmul 50 2)) (fmul 150 1) = 2750"
  by code_simp

lemma discount_example: "fmul 2750 (double (1 / 10)) = 275"
  by code_simp

lemma final_example: "fsub 2750 275 = 2475"
  by code_simp

lemma finalizeOrder_accepted:
  assumes "validate3 ord = Inr b"
  shows "finalizeOrder ord =
     (Inr \<lparr>f_order = getInfo (ord\<lparr>a_status := ''completed''\<rparr>),
           f_discount = calculateDiscount ord, f_total = getTotal ord,
           f_finalTotal = fsub (getTotal ord) (calculateDiscount ord)\<rparr>,
      ord\<lparr>a_status := ''completed''\<rparr>)"
  using assms by (simp add: finalizeOrder_def Let_def)

text \<open>
  Claim C2, as the code has it. When the validator accepts the order, \<^verbatim>\<open>finalizeOrder\<close>
  sets its status to \<^verbatim>\<open>completed\<close> and returns the snapshot of the completed order, the
  discount, the total and the final total \<^verbatim>\<open>total - discount\<close>; when the validator throws,
  the error propagates and the order is left as it was. For an order that the validator
  accepts and that holds exactly the items of price 2500 and quantity 1, price 50 and
  quantity 2, price 150 and quantity 1, the total is 2750, the discount 275 (the 10% tier)
  and the final total 2475.
\<close>

theorem finalizeOrder_composite:
  "(validate3 ord = Inr b \<longrightarrow>
      finalizeOrder ord =
        (Inr \<lparr>f_order = getInfo (ord\<lparr>a_status := ''completed''\<rparr>),
              f_discount = calculateDiscount ord, f_total = getTotal ord,
              f_finalTotal = fsub (getTotal ord) (calculateDiscount ord)\<rparr>,
         ord\<lparr>a_status := ''completed''\<rparr>) \<and>
      oi_status (getInfo (ord\<lparr>a_status := ''completed''\<rparr>)) = ''completed'') \<and>
   (validate3 ord = Inl e \<longrightarrow> finalizeOrder ord = (Inl e, ord)) \<and>
   (validate3 ord = Inr b \<and>
    map (\<lambda>item. (p_price (product item), quantity item)) (a_items ord) =
      [(2500, 1), (50, 2), (150, 1)] \<longrightarrow>
      finalizeOrder ord =
        (Inr \<lparr>f_order = getInfo (ord\<lparr>a_status := ''completed''\<rparr>),
              f_discount = 275, f_total = 2750, f_finalTotal = 2475\<rparr>,
         ord\<lparr>a_status := ''completed''\<rparr>))"
proof -
  have total: "getTotal ord = 2750"
    if "map (\<lambda>item. (p_price (product item), quantity item)) (a_items ord) =
      [(2500, 1), (50, 2), (150, 1)]"
    using that total_example by (simp add: getTotal_prices)
  have discount: "calculateDiscount ord = 275" if "getTotal ord = 2750"
    using that discount_example by (simp add: calculateDiscount_def Let_def)
  show ?thesis
    using total discount final_example
    by (auto simp add: finalizeOrder_accepted getInfo_def) (simp add: finalizeOrder_def)
qed

theorem finalizeOrder_composite_witness:
  "validate3 (addItem (addItem (addItem (Order3 (Some ''ORD-001'') (Some ''Joao Silva''))
       \<lparr>p_id = ''PROD-001'', p_name = ''Notebook'', p_price = 2500\<rparr> 1)
       \<lparr>p_id = ''PROD-002'', p_name = ''Mouse'', p_price = 50\<rparr> 2)
       \<lparr>p_id = ''PROD-003'', p_name = ''Teclado'', p_price = 150\<rparr> 1) = Inr True \<and>
   fst (finalizeOrder (addItem (addItem (addItem (Order3 (Some ''ORD-001'') (Some ''Joao Silva''))
       \<lparr>p_id = ''PROD-001'', p_name = ''Notebook'', p_price = 2500\<rparr> 1)
       \<lparr>p_id = ''PROD-002'', p_name = ''Mouse'', p_price = 50\<rparr> 2)
       \<lparr>p_id = ''PROD-003'', p_name = ''Teclado'', p_price = 150\<rparr> 1)) =
     Inr \<lparr>f_order = getInfo ((addItem (addItem (addItem (Order3 (Some ''ORD-001'') (Some ''Joao Silva''))
       \<lparr>p_id = ''PROD-001'', p_name = ''Notebook'', p_price = 2500\<rparr> 1)
       \<lparr>p_id = ''PROD-002'', p_name = ''Mouse'', p_price = 50\<rparr> 2)
       \<lparr>p_id = ''PROD-003'', p_name = ''Teclado'', p_price = 150\<rparr> 1)\<lparr>a_status := ''completed''\<rparr>),
          f_discount = 275, f_total = 2750, f_finalTotal = 2475\<rparr> \<and>
   finalizeOrder (Order3 (Some ''ORD-009'') (Some ''Joao Silva'')) =
     (Inl (Error ''Order must have at least one item''), Order3 (Some ''ORD-009'') (Some ''Joao Silva''))"
proof -
  let ?ord = "addItem (addItem (addItem (Order3 (Some ''ORD-001'') (Some ''Joao Silva''))
       \<lparr>p_id = ''PROD-001'', p_name = ''Notebook'', p_price = 2500\<rparr> 1)
       \<lparr>p_id = ''PROD-002'', p_name = ''Mouse'', p_price = 50\<rparr> 2)
       \<lparr>p_id = ''PROD-003'', p_name = ''Teclado'', p_price = 150\<rparr> 1"
  have v: "validate3 ?ord = Inr True"
    by (simp add: validate3_def addItem_def Order3_def falsy_def)
  have items: "map (\<lambda>item. (p_price (product item), quantity item)) (a_items ?ord) =
      [(2500, 1), (50, 2), (150, 1)]"
    by (simp add: addItem_def Order3_def)
  have e: "validate3 (Order3 (Some ''ORD-009'') (Some ''Joao Silva'')) =
      Inl (Error ''Order must have at least one item'')"
    by (simp add: validate3_def Order3_def falsy_def)
  have a: "finalizeOrder ?ord =
        (Inr \<lparr>f_order = getInfo (?ord\<lparr>a_status := ''completed''\<rparr>),
              f_discount = 275, f_total = 2750, f_finalTotal = 2475\<rparr>,
         ?ord\<lparr>a_status := ''completed''\<rparr>)"
    using finalizeOrder_composite [of ?ord True "Error []", THEN conjunct2, THEN conjunct2]
    by (simp only: v items simp_thms)
  have b: "finalizeOrder (Order3 (Some ''ORD-009'') (Some ''Joao Silva'')) =
     (Inl (Error ''Order must have at least one item''), Order3 (Some ''ORD-009'') (Some ''Joao Silva''))"
    using finalizeOrder_composite [of "Order3 (Some ''ORD-009'') (Some ''Joao Silva'')" True
        "Error ''Order must have at least one item''", THEN conjunct2, THEN conjunct1]
    by (simp only: e simp_thms)
  show ?thesis
    using v a b by simp
qed

text \<open>
  On the order of the demonstration the result is total 2750, discount 275, final total
  2475, and not 2700, 270, 2430: the items add up to 2500 + 100 + 150.
\<close>

theorem finalizeOrder_example_total:
  "map_sum id (\<lambda>r. (f_total r, f_discount r, f_finalTotal r))
     (fst (finalizeOrder (addItem (addItem (addItem (Order3 (Some ''ORD-001'') (Some ''Joao Silva''))
       \<lparr>p_id = ''PROD-001'', p_name = ''Notebook'', p_price = 2500\<rparr> 1)
       \<lparr>p_id = ''PROD-002'', p_name = ''Mouse'', p_price = 50\<rparr> 2)
       \<lparr>p_id = ''PROD-003'', p_name = ''Teclado'', p_price = 150\<rparr> 1))) =
     Inr (2750, 275, 2475) \<and>
   map_sum id (\<lambda>r. (f_total r, f_discount r, f_finalTotal r))
     (fst (finalizeOrder (addItem (addItem (addItem (Order3 (Some ''ORD-001'') (Some ''Joao Silva''))
       \<lparr>p_id = ''PROD-001'', p_name = ''Notebook'', p_price = 2500\<rparr> 1)
       \<lparr>p_id = ''PROD-002'', p_name = ''Mouse'', p_price = 50\<rparr> 2)
       \<lparr>p_id = ''PROD-003'', p_name = ''Teclado'', p_price = 150\<rparr> 1))) \<noteq>
     Inr (2700, 270, 2430)"
proof -
  let ?ord = "addItem (addItem (addItem (Order3 (Some ''ORD-001'') (Some ''Joao Silva''))
       \<lparr>p_id = ''PROD-001'', p_name = ''Notebook'', p_price = 2500\<rparr> 1)
       \<lparr>p_id = ''PROD-002'', p_name = ''Mouse'', p_price = 50\<rparr> 2)
       \<lparr>p_id = ''PROD-003'', p_name = ''Teclado'', p_price = 150\<rparr> 1"
  have v: "validate3 ?ord = Inr True"
    by (simp add: validate3_def addItem_def Order3_def falsy_def)
  have total: "getTotal ?ord = 2750"
    using total_example by (simp add: getTotal_prices addItem_def Order3_def)
  have discount: "calculateDiscount ?ord = 275"
    using discount_example by (simp add: calculateDiscount_def Let_def total)
  show ?thesis
    using final_example by (simp add: finalizeOrder_accepted [OF v] total discount)
qed

section \<open>The total of the processed payments\<close>

lemma getTotalProcessed_amounts:
  "getTotalProcessed payments = foldl fadd 0 (map amount payments)"
  by (simp add: getTotalProcessed_def foldl_map)

lemma foldl_fadd_ints:
  "\<bar>k\<bar> + (\<Sum>n\<leftarrow>ns. \<bar>n\<bar>) \<le> 2 ^ 53 \<Longrightarrow>
     foldl fadd (of_int k) (map of_int ns) = of_int (k + sum_list ns)"
proof (induction ns arbitrary: k)
  case Nil
  then show ?case by simp
next
  case (Cons n ns)
  have "0 \<le> (\<Sum>n\<leftarrow>ns. \<bar>n\<bar>)"
    by (rule sum_list_nonneg) auto
  then have small: "\<bar>k + n\<bar> \<le> 2 ^ 53" and rest: "\<bar>k + n\<bar> + (\<Sum>n\<leftarrow>ns. \<bar>n\<bar>) \<le> 2 ^ 53"
    using Cons.prems by simp_all
  have "fadd (of_int k) (of_int n) = double (of_int (k + n))"
    by (simp add: fadd_def)
  also have "\<dots> = of_int (k + n)"
    using small by (rule double_of_int)
  finally have step: "fadd (of_int k) (of_int n) = of_int (k + n)" .
  show ?case
    using Cons.IH [OF rest] by (simp add: step add.assoc)
qed

lemma Ints_list:
  fixes xs :: "rat list"
  shows "(\<forall>x\<in>set xs. x \<in> \<int>) \<Longrightarrow> \<exists>ns. xs = map of_int ns"
proof (induction xs)
  case Nil
  then show ?case by simp
next
  case (Cons x xs)
  then obtain ns where "xs = map of_int ns" by auto
  moreover obtain n where "x = of_int n"
    using Cons.prems by (auto elim: Ints_cases)
  ultimately have "x # xs = map of_int (n # ns)" by simp
  then show ?case by (rule exI)
qed

lemma sum_list_abs_of_int:
  "(\<Sum>x\<leftarrow>map of_int ns. \<bar>x :: rat\<bar>) = of_int (\<Sum>n\<leftarrow>ns. \<bar>n\<bar>)"
  by (induction ns) simp_all

lemma sum_list_of_int: "sum_list (map of_int ns) = (of_int (sum_list ns) :: rat)"
  by (induction ns) simp_all

lemma foldl_fadd_exact:
  assumes "\<forall>x\<in>set xs. x \<in> \<int>" and "(\<Sum>x\<leftarrow>xs. \<bar>x\<bar>) \<le> 2 ^ 53"
  shows "foldl fadd 0 xs = sum_list xs"
proof -
  obtain ns where ns: "xs = map of_int ns"
    using Ints_list [OF assms(1)] by blast
  have "(of_int (\<Sum>n\<leftarrow>ns. \<bar>n\<bar>) :: rat) = (\<Sum>x\<leftarrow>xs. \<bar>x\<bar>)"
    unfolding ns by (rule sum_list_abs_of_int [symmetric])
  also have "\<dots> \<le> 2 ^ 53"
    by (rule assms(2))
  finally have "(of_int (\<Sum>n\<leftarrow>ns. \<bar>n\<bar>) :: rat) \<le> of_int (2 ^ 53)"
    by simp
  then have "(\<Sum>n\<leftarrow>ns. \<bar>n\<bar>) \<le> 2 ^ 53"
    by (simp only: of_int_le_iff)
  then have "foldl fadd (of_int 0) (map of_int ns) = of_int (0 + sum_list ns)"
    by (intro foldl_fadd_ints) simp
  then show ?thesis
    by (simp add: ns sum_list_of_int)
qed

lemma sum_list_mset_eq:
  fixes f :: "'a \<Rightarrow> rat"
  assumes "mset xs = mset ys"
  shows "sum_list (map f xs) = sum_list (map f ys)"
proof -
  have "sum_mset (image_mset f (mset xs)) = sum_mset (image_mset f (mset ys))"
    using assms by simp
  then show ?thesis
    by (simp only: sum_mset_sum_list [symmetric] mset_map [symmetric])
qed

text \<open>
  Claim C9, as the code has it. \<^verbatim>\<open>getTotalProcessed()\<close> is the left-to-right sum, in
  floating-point addition and starting from 0, of the \<^verbatim>\<open>amount\<close> of all recorded payments:
  it depends on the amounts only, whatever the statuses. When every amount is a whole
  number and the absolute values of the amounts add up to at most \<open>2\<^sup>5\<^sup>3\<close>, every
  addition is exact: the result is the sum of the amounts, and it is the same for every
  order in which the same payments are recorded.
\<close>

theorem getTotalProcessed_sum:
  "getTotalProcessed payments = foldl fadd 0 (map amount payments) \<and>
   (map amount others = map amount payments \<longrightarrow>
      getTotalProcessed others = getTotalProcessed payments) \<and>
   ((\<forall>p\<in>set payments. amount p \<in> \<int>) \<and> (\<Sum>p\<leftarrow>payments. \<bar>amount p\<bar>) \<le> 2 ^ 53 \<longrightarrow>
      getTotalProcessed payments = (\<Sum>p\<leftarrow>payments. amount p) \<and>
      (\<forall>reordered. mset reordered = mset payments \<longrightarrow>
         getTotalProcessed reordered = getTotalProcessed payments))"
proof -
  have exact: "getTotalProcessed ps = (\<Sum>p\<leftarrow>ps. amount p)"
    if "\<forall>p\<in>set ps. amount p \<in> \<int>" and "(\<Sum>p\<leftarrow>ps. \<bar>amount p\<bar>) \<le> 2 ^ 53"
    for ps :: "'a payment_scheme list"
  proof -
    have "\<forall>x\<in>set (map amount ps). x \<in> \<int>"
      using that(1) by simp
    moreover have "(\<Sum>x\<leftarrow>map amount ps. \<bar>x\<bar>) \<le> 2 ^ 53"
      using that(2) by (simp add: comp_def)
    ultimately show ?thesis
      by (simp add: getTotalProcessed_amounts foldl_fadd_exact)
  qed
  have perm: "getTotalProcessed qs = getTotalProcessed payments"
    if ints: "\<forall>p\<in>set payments. amount p \<in> \<int>"
      and small: "(\<Sum>p\<leftarrow>payments. \<bar>amount p\<bar>) \<le> 2 ^ 53"
      and m: "mset qs = mset payments"
    for qs
  proof -
    have "set qs = set payments"
      using m by (rule mset_eq_setD)
    then have ints': "\<forall>p\<in>set qs. amount p \<in> \<int>"
      using ints by simp
    have "(\<Sum>p\<leftarrow>qs. \<bar>amount p\<bar>) = (\<Sum>p\<leftarrow>payments. \<bar>amount p\<bar>)"
      using m by (rule sum_list_mset_eq)
    then have small': "(\<Sum>p\<leftarrow>qs. \<bar>amount p\<bar>) \<le> 2 ^ 53"
      using small by simp
    have "(\<Sum>p\<leftarrow>qs. amount p) = (\<Sum>p\<leftarrow>payments. amount p)"
      using m by (rule sum_list_mset_eq)
    then show ?thesis
      using exact [OF ints' small'] exact [OF ints small] by simp
  qed
  show ?thesis
    using exact [of payments] perm
    by (auto simp add: getTotalProcessed_amounts)
qed

theorem getTotalProcessed_sum_witness:
  "getTotalProcessed [complete_Payment ''2024-01-01T10:00:00.000Z'' (process (Payment 250 ''credit_card'')),
      process (Payment 100 ''pix''), Payment 75 ''pix''] = 425 \<and>
   getTotalProcessed [Payment 75 ''pix'', process (Payment 100 ''pix''),
      complete_Payment ''2024-01-01T10:00:00.000Z'' (process (Payment 250 ''credit_card''))] = 425"
proof -
  let ?ps = "[complete_Payment ''2024-01-01T10:00:00.000Z'' (process (Payment 250 ''credit_card'')),
      process (Payment 100 ''pix''), Payment 75 ''pix'']"
  let ?qs = "[Payment 75 ''pix'', process (Payment 100 ''pix''),
      complete_Payment ''2024-01-01T10:00:00.000Z'' (process (Payment 250 ''credit_card''))]"
  have ints: "\<forall>p\<in>set ?ps. amount p \<in> \<int>"
    by (simp add: Payment_def process_def complete_Payment_def)
  have small: "(\<Sum>p\<leftarrow>?ps. \<bar>amount p\<bar>) \<le> 2 ^ 53"
    by (simp add: Payment_def process_def complete_Payment_def)
  have m: "mset ?qs = mset ?ps"
    by simp
  have s: "(\<Sum>p\<leftarrow>?ps. amount p) = 425"
    by (simp add: Payment_def process_def complete_Payment_def)
  from getTotalProcessed_sum [of ?ps ?ps] ints small
  have a: "getTotalProcessed ?ps = (\<Sum>p\<leftarrow>?ps. amount p)"
    and b: "\<forall>reordered. mset reordered = mset ?ps \<longrightarrow>
         getTotalProcessed reordered = getTotalProcessed ?ps"
    by blast+
  from b m have "getTotalProcessed ?qs = getTotalProcessed ?ps"
    by blast
  then show ?thesis
    using a s by simp
qed

text \<open>
  For amounts that are not whole numbers the result depends on the order: the payments of
  0.1, 0.2 and 0.3 processed in this order total 0.6000000000000001, and processed in the
  reverse order 0.6 (the double nearest to it).
\<close>

theorem getTotalProcessed_order_dependent:
  "getTotalProcessed
     (fst (processPayment ''2024-01-01T10:00:02.000Z''
       (fst (processPayment ''2024-01-01T10:00:01.000Z''
         (fst (processPayment ''2024-01-01T10:00:00.000Z'' []
           (Payment (double (1 / 10)) ''pix'')))
         (Payment (double (2 / 10)) ''pix'')))
       (Payment (double (3 / 10)) ''pix''))) = 5404319552844596 / 9007199254740992 \<and>
   getTotalProcessed
     (fst (processPayment ''2024-01-01T10:00:02.000Z''
       (fst (processPayment ''2024-01-01T10:00:01.000Z''
         (fst (processPayment ''2024-01-01T10:00:00.000Z'' []
           (Payment (double (3 / 10)) ''pix'')))
         (Payment (double (2 / 10)) ''pix'')))
       (Payment (double (1 / 10)) ''pix''))) = 5404319552844595 / 9007199254740992"
  by code_simp

end
